theory Spec2Isabelle
  imports Main "HOL-Library.AList"
begin

section \<open>JavaScript values\<close>

text \<open>
  The plugin works on plain JavaScript data: query filters, update payloads, query options,
  document snapshots. They are modelled by one datatype. Numbers are integers (no claim
  depends on floating point), an object is the list of its own enumerable properties in
  insertion order, and \<open>Undefined\<close> is the value of a missing property.
\<close>

datatype jsval =
    Undefined
  | Null
  | Bool bool
  | Num int
  | Str string
  | Arr "jsval list"
  | Obj "(string \<times> jsval) list"

text \<open>Truthiness, as \<open>if (v)\<close>, \<open>!v\<close> and \<open>a || b\<close> decide it.\<close>

fun truthy :: "jsval \<Rightarrow> bool" where
  "truthy Undefined = False"
| "truthy Null = False"
| "truthy (Bool b) = b"
| "truthy (Num n) = (n \<noteq> 0)"
| "truthy (Str s) = (s \<noteq> [])"
| "truthy (Arr xs) = True"
| "truthy (Obj kvs) = True"

definition js_or :: "jsval \<Rightarrow> jsval \<Rightarrow> jsval" where
  "js_or a b = (if truthy a then a else b)"

text \<open>
  Property read \<open>v[k]\<close>. A missing property reads as \<open>Undefined\<close>; the code reads
  properties of objects only.
\<close>

fun js_prop :: "jsval \<Rightarrow> string \<Rightarrow> jsval" where
  "js_prop (Obj kvs) k = (case map_of kvs k of Some v \<Rightarrow> v | None \<Rightarrow> Undefined)"
| "js_prop v k = Undefined"

text \<open>Decimal rendering of an index, for the property names of arrays and strings.\<close>

fun show_nat :: "nat \<Rightarrow> string" where
  "show_nat n =
     (if n < 10 then [''0123456789'' ! n]
      else show_nat (n div 10) @ [''0123456789'' ! (n mod 10)])"

declare show_nat.simps [simp del]

text \<open>The own enumerable properties \<open>Object.assign\<close> copies from a source.\<close>

fun own_props :: "jsval \<Rightarrow> (string \<times> jsval) list" where
  "own_props (Obj kvs) = kvs"
| "own_props (Arr xs) = map (\<lambda>i. (show_nat i, xs ! i)) [0..<length xs]"
| "own_props (Str s) = map (\<lambda>i. (show_nat i, Str [s ! i])) [0..<length s]"
| "own_props v = []"

text \<open>\<open>Object.assign(target, source)\<close>: each property of the source is set on the target.\<close>

definition assign :: "(string \<times> jsval) list \<Rightarrow> jsval \<Rightarrow> (string \<times> jsval) list" where
  "assign target source = fold (\<lambda>(k, v) acc. AList.update k v acc) (own_props source) target"

text \<open>
  \<open>toJSON = JSON.parse(JSON.stringify(obj))\<close>: properties holding \<open>undefined\<close> are dropped,
  \<open>undefined\<close> array elements become \<open>null\<close>. The code applies it to the result of
  \<open>data()\<close> only, which is an object.
\<close>

fun toJSON :: "jsval \<Rightarrow> jsval" where
  "toJSON (Arr xs) = Arr (map (\<lambda>v. if v = Undefined then Null else toJSON v) xs)"
| "toJSON (Obj kvs) =
     Obj (map (\<lambda>(k, v). (k, toJSON v)) (filter (\<lambda>(k, v). v \<noteq> Undefined) kvs))"
| "toJSON v = v"

section \<open>Re-resolving the affected documents\<close>

text \<open>
  \<open>mergeQueryConditionsWithUpdate(_conditions, _update)\<close>, as \<open>lib/index.js\<close> runs it:
  \<^verbatim>\<open>
  var update = _update ? _update.$set || _update : _update;
  var conditions = Object.assign({}, conditions, update);
  Object.keys(conditions).forEach(function (key) {
    if (key.includes('$')) delete conditions[key];
  });
  return conditions;
  \<close>
  The second argument of \<open>Object.assign\<close> is the variable \<open>conditions\<close> that the
  statement itself declares: it is hoisted and still \<open>undefined\<close> when the call is
  evaluated. The parameter \<open>_conditions\<close> is never read.
\<close>

definition mergeQueryConditionsWithUpdate :: "jsval \<Rightarrow> jsval \<Rightarrow> jsval" where
  "mergeQueryConditionsWithUpdate conditions_arg update_arg =
     (let update = (if truthy update_arg then js_or (js_prop update_arg ''$set'') update_arg
                    else update_arg);
          conditions = assign (assign [] Undefined) update
      in Obj (filter (\<lambda>(key, v). CHR ''$'' \<notin> set key) conditions))"

text \<open>
  The filter as the specification words it, for comparison: the original query
  conditions merged with the update's \<open>$set\<close> payload (or the whole update when it has
  none), without the keys that contain an update operator.
\<close>

definition merged_filter_spec :: "jsval \<Rightarrow> jsval \<Rightarrow> jsval" where
  "merged_filter_spec conditions_arg update_arg =
     (let update = (if truthy update_arg then js_or (js_prop update_arg ''$set'') update_arg
                    else update_arg);
          conditions = assign (assign [] conditions_arg) update
      in Obj (filter (\<lambda>(key, v). CHR ''$'' \<notin> set key) conditions))"

section \<open>Documents, snapshots and the patch repository\<close>

text \<open>
  A document instance of the tracked model: its \<open>_id\<close>, the \<open>isNew\<close> flag, the
  attached baseline \<open>_original\<close> (\<open>Undefined\<close> until one is attached), the fields that
  \<open>toObject({depopulate: true, versionKey: false})\<close> yields besides \<open>_id\<close>, and the
  other readable properties (virtuals and ad hoc properties such as \<open>_user\<close>).
  Mongoose applies the transform of \<open>toObject\<close> to every subdocument as well; which
  nested values are subdocuments is the schema's matter, so \<open>doc_fields\<close> holds the
  values of the fields with the transform already applied inside them, and the model
  applies it at the top level.
\<close>

record document =
  doc_id :: jsval
  isNew :: bool
  doc_original :: jsval
  doc_fields :: "(string \<times> jsval) list"
  doc_virtuals :: "(string \<times> jsval) list"

text \<open>
  Property read \<open>document[k]\<close>: the identity, the two properties the hooks themselves
  read and write on the instance, the schema's fields, the other readable properties.
\<close>

definition doc_prop :: "document \<Rightarrow> string \<Rightarrow> jsval" where
  "doc_prop d k =
     (if k = ''_id'' then doc_id d
      else if k = ''_original'' then doc_original d
      else if k = ''isNew'' then Bool (isNew d)
      else case map_of (doc_fields d) k of
             Some v \<Rightarrow> v
           | None \<Rightarrow> (case map_of (doc_virtuals d) k of Some v \<Rightarrow> v | None \<Rightarrow> Undefined))"

text \<open>
  \<open>schema.options.timestamps\<close>: not set, or set, with the names configured for the two
  timestamp fields where the option is an object naming them.
\<close>

datatype timestamps_opt = NoTimestamps | Timestamps "string option" "string option"

definition timestamp_key :: "string option \<Rightarrow> string \<Rightarrow> string" where
  "timestamp_key configured dflt =
     (case configured of Some s \<Rightarrow> if s \<noteq> [] then s else dflt | None \<Rightarrow> dflt)"

text \<open>
  \<open>schema.methods.data\<close>: \<open>toObject\<close> with a transform that deletes \<open>_id\<close> and, when the
  schema has timestamps, the two timestamp fields.
\<close>

definition data :: "timestamps_opt \<Rightarrow> document \<Rightarrow> jsval" where
  "data ts d =
     (let ret = AList.delete ''_id'' ((''_id'', doc_id d) # doc_fields d)
      in case ts of
           NoTimestamps \<Rightarrow> Obj ret
         | Timestamps c u \<Rightarrow>
             Obj (AList.delete (timestamp_key u ''updatedAt'')
                    (AList.delete (timestamp_key c ''createdAt'') ret)))"

text \<open>The snapshot the hooks attach: \<open>toJSON(document.data())\<close>.\<close>

definition snapshot :: "timestamps_opt \<Rightarrow> document \<Rightarrow> jsval" where
  "snapshot ts d = toJSON (data ts d)"

text \<open>
  A diff operation as \<open>jsonpatch.compare\<close> returns it, with the annotation the plugin may
  add (\<open>None\<close>: the entry has no \<open>originalValue\<close> property).
\<close>

record entry =
  op :: string
  path :: string
  val :: jsval
  originalValue :: "jsval option"

text \<open>
  The object handed to \<open>document.patches.create\<close>: \<open>ops\<close>, \<open>ref\<close> and the included
  fields, in insertion order. The patch repository is the list of the records created, in
  creation order; the \<open>date\<close> and the \<open>_id\<close> the store adds to a record are left out.
\<close>

datatype field = Ops "entry list" | Val jsval

type_synonym patch = "(string \<times> field) list"

definition patches_create :: "patch \<Rightarrow> patch list \<Rightarrow> patch list" where
  "patches_create p ps = ps @ [p]"

definition patches_find_ref :: "jsval \<Rightarrow> patch list \<Rightarrow> patch list" where
  "patches_find_ref r ps = filter (\<lambda>p. map_of p ''ref'' = Some (Val r)) ps"

definition patch_remove :: "patch \<Rightarrow> patch list \<Rightarrow> patch list" where
  "patch_remove p ps = remove1 p ps"

section \<open>Options\<close>

text \<open>An included field's definition; only its \<open>from\<close> alias matters to the hooks.\<close>

record include_type =
  from_field :: "string option"

text \<open>
  The options as the caller supplies them (\<open>None\<close>: not supplied) and as
  \<open>merge({}, defaultOptions, opts)\<close> resolves them, with \<open>_idType\<close> added.
\<close>

record plugin_opts =
  opt_mongoose :: bool
  opt_name :: "string option"
  opt_schema :: bool
  opt_includes :: "(string \<times> include_type) list option"
  opt_removePatches :: "bool option"
  opt_trackOriginalValue :: "bool option"

record options =
  mongoose :: bool
  name :: "string option"
  schema_factory :: bool
  included :: "(string \<times> include_type) list"
  excludes :: "string list"
  removePatches :: bool
  trackOriginalValue :: bool
  idType :: "string option"

definition merge_options :: "plugin_opts \<Rightarrow> string option \<Rightarrow> options" where
  "merge_options opts id_type =
     \<lparr> mongoose = opt_mongoose opts,
       name = opt_name opts,
       schema_factory = opt_schema opts,
       included = (case opt_includes opts of Some i \<Rightarrow> i | None \<Rightarrow> []),
       excludes = [],
       removePatches = (case opt_removePatches opts of Some b \<Rightarrow> b | None \<Rightarrow> True),
       trackOriginalValue = (case opt_trackOriginalValue opts of Some b \<Rightarrow> b | None \<Rightarrow> False),
       idType = id_type \<rparr>"

text \<open>
  What the hooks close over: the resolved options, the schema's timestamps option, and the
  two library functions \<open>jsonpatch.compare\<close> and lodash \<open>get\<close>, taken as parameters.
\<close>

record plugin_env =
  env_options :: options
  env_timestamps :: timestamps_opt
  compare :: "jsval \<Rightarrow> jsval \<Rightarrow> entry list"
  get :: "jsval \<Rightarrow> string \<Rightarrow> jsval"

section \<open>Patch assembly\<close>

text \<open>\<open>String.prototype.split\<close> on a one-character separator, lodash \<open>tail\<close>, \<open>Array.prototype.join\<close>.\<close>

fun js_split :: "char \<Rightarrow> string \<Rightarrow> string list" where
  "js_split c [] = [[]]"
| "js_split c (x # xs) =
     (if x = c then [] # js_split c xs
      else case js_split c xs of
             w # ws \<Rightarrow> (x # w) # ws
           | [] \<Rightarrow> [[x]])"

definition tail :: "'a list \<Rightarrow> 'a list" where
  "tail xs = (case xs of [] \<Rightarrow> [] | x # rest \<Rightarrow> rest)"

fun js_join :: "string \<Rightarrow> string list \<Rightarrow> string" where
  "js_join sep [] = []"
| "js_join sep [w] = w"
| "js_join sep (w # ws) = w @ sep @ js_join sep ws"

definition dotted_path :: "string \<Rightarrow> string" where
  "dotted_path p = js_join ''.'' (tail (js_split CHR ''/'' p))"

text \<open>\<open>type.from || name\<close> and \<open>document[key] || queryOptions[key]\<close>.\<close>

definition include_key :: "string \<Rightarrow> include_type \<Rightarrow> string" where
  "include_key nm ty =
     (case from_field ty of Some f \<Rightarrow> if f \<noteq> [] then f else nm | None \<Rightarrow> nm)"

definition include_value :: "document \<Rightarrow> jsval \<Rightarrow> string \<Rightarrow> include_type \<Rightarrow> jsval" where
  "include_value document queryOptions nm ty =
     js_or (doc_prop document (include_key nm ty)) (js_prop queryOptions (include_key nm ty))"

text \<open>The baseline of the diff and of the original-value lookup.\<close>

definition compare_base :: "document \<Rightarrow> jsval" where
  "compare_base document =
     (if isNew document then Obj [] else js_or (doc_original document) (Obj []))"

definition lookup_base :: "document \<Rightarrow> jsval" where
  "lookup_base document = (if isNew document then Obj [] else doc_original document)"

definition track :: "plugin_env \<Rightarrow> document \<Rightarrow> entry list \<Rightarrow> entry list" where
  "track env document ops =
     (if trackOriginalValue (env_options env)
      then map (\<lambda>e. e\<lparr>originalValue :=
                        Some (get env (lookup_base document) (dotted_path (path e)))\<rparr>) ops
      else ops)"

definition assemble :: "plugin_env \<Rightarrow> document \<Rightarrow> jsval \<Rightarrow> entry list \<Rightarrow> patch" where
  "assemble env document queryOptions ops =
     fold (\<lambda>(nm, ty) d. AList.update nm (Val (include_value document queryOptions nm ty)) d)
       (included (env_options env))
       [(''ops'', Ops ops), (''ref'', Val (doc_id document))]"

text \<open>
  \<open>createPatch(document, queryOptions = {})\<close>: nothing is created when the diff has no
  operation; otherwise the operations are annotated when tracking is on, the record is
  assembled and handed to \<open>document.patches.create\<close>.
\<close>

definition createPatch :: "plugin_env \<Rightarrow> document \<Rightarrow> jsval \<Rightarrow> patch list \<Rightarrow> patch list" where
  "createPatch env document queryOptions_arg patches =
     (let queryOptions = (if queryOptions_arg = Undefined then Obj [] else queryOptions_arg);
          ops = compare env (compare_base document) (toJSON (data (env_timestamps env) document))
      in if length ops = 0 then patches
         else patches_create (assemble env document queryOptions (track env document ops)) patches)"

section \<open>The hooks\<close>

text \<open>
  \<open>this.model\<close>, as the store answers when a hook runs: \<open>findOne\<close> and \<open>find\<close> return
  the stored documents matching a filter (the query language is the store's and is not
  modelled), \<open>new_blank\<close> is the instance \<open>new this.model({})\<close> constructs. Store
  operations are taken to succeed.
\<close>

record stored =
  s_id :: jsval
  s_fields :: "(string \<times> jsval) list"
  s_virtuals :: "(string \<times> jsval) list"

record model =
  findOne :: "jsval \<Rightarrow> stored option"
  find :: "jsval \<Rightarrow> stored list"
  new_blank :: document

text \<open>
  \<open>schema.post('init', snapshot)\<close> and \<open>schema.post('save', snapshot)\<close>:
  \<open>this._original = toJSON(this.data())\<close>.
\<close>

definition snapshot_hook :: "plugin_env \<Rightarrow> document \<Rightarrow> document" where
  "snapshot_hook env d = d\<lparr>doc_original := toJSON (data (env_timestamps env) d)\<rparr>"

text \<open>
  A document loaded from the store: not new, and initialised, so that the \<open>init\<close> hook has
  attached its snapshot.
\<close>

definition init :: "plugin_env \<Rightarrow> stored \<Rightarrow> document" where
  "init env s =
     snapshot_hook env
       \<lparr> doc_id = s_id s, isNew = False, doc_original = Undefined,
         doc_fields = s_fields s, doc_virtuals = s_virtuals s \<rparr>"

datatype error = TypeError | AssertionError string

text \<open>
  \<open>deletePatches(document)\<close>: destructuring \<open>_id\<close> from \<open>null\<close> throws; otherwise every
  patch found with the document's \<open>_id\<close> as \<open>ref\<close> is removed.
\<close>

definition deletePatches :: "document option \<Rightarrow> patch list \<Rightarrow> error + patch list" where
  "deletePatches document patches =
     (case document of
        None \<Rightarrow> Inl TypeError
      | Some d \<Rightarrow> Inr (fold patch_remove (patches_find_ref (doc_id d) patches) patches))"

text \<open>\<open>schema.pre('remove', ...)\<close>, on the document being removed.\<close>

definition pre_remove :: "plugin_env \<Rightarrow> document \<Rightarrow> patch list \<Rightarrow> error + patch list" where
  "pre_remove env this patches =
     (if \<not> removePatches (env_options env) then Inr patches
      else deletePatches (Some this) patches)"

text \<open>\<open>schema.pre('save', ...)\<close>: \<open>createPatch(this)\<close>.\<close>

definition pre_save :: "plugin_env \<Rightarrow> document \<Rightarrow> patch list \<Rightarrow> patch list" where
  "pre_save env this patches = createPatch env this Undefined patches"

text \<open>
  The query a query hook runs on: \<open>_conditions\<close>, \<open>_update\<close>, \<open>options\<close>, and the fields
  the pre-phase stashes on it.
\<close>

record query =
  q_conditions :: jsval
  q_update :: jsval
  q_options :: jsval
  q_originalId :: jsval
  q_original :: jsval
  q_originalIds :: "jsval list"
  q_originals :: "jsval list"

text \<open>\<open>schema.pre('findOneAndRemove', ...)\<close>.\<close>

definition pre_findOneAndRemove ::
  "plugin_env \<Rightarrow> model \<Rightarrow> query \<Rightarrow> patch list \<Rightarrow> error + patch list" where
  "pre_findOneAndRemove env m this patches =
     (if \<not> removePatches (env_options env) then Inr patches
      else deletePatches (map_option (init env) (findOne m (q_conditions this))) patches)"

definition preUpdateOne :: "plugin_env \<Rightarrow> model \<Rightarrow> query \<Rightarrow> query" where
  "preUpdateOne env m this =
     (case findOne m (q_conditions this) of
        Some s \<Rightarrow>
          this\<lparr>q_originalId := doc_id (init env s),
               q_original := toJSON (data (env_timestamps env) (init env s))\<rparr>
      | None \<Rightarrow>
          this\<lparr>q_original := toJSON (data (env_timestamps env) (new_blank m))\<rparr>)"

text \<open>\<open>result.nModified === 0 && !result.upserted\<close>.\<close>

definition nothing_modified :: "jsval \<Rightarrow> bool" where
  "nothing_modified result =
     (js_prop result ''nModified'' = Num 0 \<and> \<not> truthy (js_prop result ''upserted''))"

text \<open>The filter \<open>postUpdateOne\<close> re-queries by.\<close>

definition conditionsOne :: "query \<Rightarrow> jsval" where
  "conditionsOne this =
     (if truthy (q_originalId this) then Obj [(''_id'', Obj [(''$eq'', q_originalId this)])]
      else mergeQueryConditionsWithUpdate (q_conditions this) (q_update this))"



definition preUpdateMany :: "plugin_env \<Rightarrow> model \<Rightarrow> query \<Rightarrow> query" where
  "preUpdateMany env m this =
     (let originals = map (init env) (find m (q_conditions this))
      in this\<lparr>q_originalIds := map doc_id originals,
              q_originals := map (\<lambda>original. toJSON (data (env_timestamps env) original)) originals\<rparr>)"

text \<open>The filter \<open>postUpdateMany\<close> re-queries by.\<close>

definition conditionsMany :: "query \<Rightarrow> jsval" where
  "conditionsMany this =
     (if length (q_originalIds this) = 0
      then mergeQueryConditionsWithUpdate (q_conditions this) (q_update this)
      else Obj [(''_id'', Obj [(''$in'', Arr (q_originalIds this))])])"

text \<open>\<open>this._originals[i]\<close>: \<open>undefined\<close> beyond the end of the array.\<close>

definition at_index :: "jsval list \<Rightarrow> nat \<Rightarrow> jsval" where
  "at_index xs i = (if i < length xs then xs ! i else Undefined)"

text \<open>
  \<open>docs.map((doc, i) => { doc._original = this._originals[i]; return createPatch(doc, this.options) })\<close>:
  the documents are taken in the order the re-query returned them, each with the
  snapshot at its own position.
\<close>

definition postUpdateMany ::
  "plugin_env \<Rightarrow> model \<Rightarrow> jsval \<Rightarrow> query \<Rightarrow> patch list \<Rightarrow> patch list" where
  "postUpdateMany env m result this patches =
     (if nothing_modified result then patches
      else let docs = map (init env) (find m (conditionsMany this))
           in fold (\<lambda>(doc, i) ps.
                      createPatch env (doc\<lparr>doc_original := at_index (q_originals this) i\<rparr>)
                        (q_options this) ps)
                (zip docs [0..<length docs]) patches)"

text \<open>\<open>schema.pre('update', ...)\<close> and \<open>schema.post('update', ...)\<close> dispatch on \<open>options.multi\<close>.\<close>

definition pre_update :: "plugin_env \<Rightarrow> model \<Rightarrow> query \<Rightarrow> query" where
  "pre_update env m this =
     (if truthy (js_prop (q_options this) ''multi'') then preUpdateMany env m this
      else preUpdateOne env m this)"


section \<open>Attaching the plugin\<close>

text \<open>
  What the plugin function reads and changes on the schema: \<open>schema.tree._id\<close> (absent, or
  present with or without a \<open>type\<close>), the instance methods, statics, virtuals and hooks by
  name, and the timestamps option. The models registered with mongoose are kept beside it.
\<close>

record schema =
  tree_id :: "string option option"
  methods :: "string list"
  statics :: "string list"
  virtual_names :: "string list"
  hooks :: "(string \<times> string) list"
  timestamps :: timestamps_opt

text \<open>Truthiness of an optional string (\<open>undefined\<close> and \<open>''\<close> are falsy).\<close>

definition defined_string :: "string option \<Rightarrow> bool" where
  "defined_string x = (case x of Some s \<Rightarrow> s \<noteq> [] | None \<Rightarrow> False)"

text \<open>
  \<open>createPatchModel(options)\<close>: \<open>new options.schema(def)\<close> throws when no schema
  constructor was supplied; otherwise the model is registered under \<open>options.name\<close>.
\<close>

definition createPatchModel :: "options \<Rightarrow> string list \<Rightarrow> error + string list" where
  "createPatchModel options models =
     (if \<not> schema_factory options then Inl TypeError
      else case name options of
             None \<Rightarrow> Inl TypeError
           | Some n \<Rightarrow> Inr (models @ [n]))"

definition plugin_hooks :: "(string \<times> string) list" where
  "plugin_hooks =
     [(''post'', ''init''), (''post'', ''save''), (''pre'', ''remove''), (''pre'', ''save''),
      (''pre'', ''findOneAndRemove''),
      (''pre'', ''findOneAndUpdate''), (''post'', ''findOneAndUpdate''),
      (''pre'', ''updateOne''), (''post'', ''updateOne''),
      (''pre'', ''updateMany''), (''post'', ''updateMany''),
      (''pre'', ''update''), (''post'', ''update'')]"

text \<open>
  The plugin function. The result is the error thrown, if any, with the schema and the
  registered models as they are when the function throws or returns.
\<close>

definition plugin ::
  "schema \<Rightarrow> string list \<Rightarrow> plugin_opts \<Rightarrow> error option \<times> schema \<times> string list" where
  "plugin schema models opts =
     (case tree_id schema of
        None \<Rightarrow> (Some TypeError, schema, models)
      | Some id_type \<Rightarrow>
          (let options = merge_options opts id_type
           in if \<not> mongoose options
              then (Some (AssertionError ''`mongoose` option must be defined''), schema, models)
              else if \<not> defined_string (name options)
              then (Some (AssertionError ''`name` option must be defined''), schema, models)
              else if ''data'' \<in> set (methods schema)
              then (Some (AssertionError ''conflicting instance method: `data`''), schema, models)
              else if \<not> defined_string (idType options)
              then (Some (AssertionError ''schema is missing an `_id` property''), schema, models)
              else (let schema1 = schema\<lparr>methods := methods schema @ [''data'']\<rparr>
                    in case createPatchModel options models of
                         Inl e \<Rightarrow> (Some e, schema1, models)
                       | Inr models1 \<Rightarrow>
                           (None,
                            schema1\<lparr>statics := statics schema1 @ [''Patches''],
                                    virtual_names := virtual_names schema1 @ [''patches''],
                                    hooks := hooks schema1 @ plugin_hooks\<rparr>,
                            models1))))"

section \<open>The specification's words\<close>

text \<open>
  The post-phase of a bulk update as the specification words it: each affected document
  is diffed against its own pre-phase snapshot, the one the pre-phase stored for its
  identity. It differs from \<open>postUpdateMany\<close> in the baseline only.
\<close>

definition own_baseline :: "query \<Rightarrow> jsval \<Rightarrow> jsval" where
  "own_baseline this ident =
     (case map_of (zip (q_originalIds this) (q_originals this)) ident of
        Some b \<Rightarrow> b
      | None \<Rightarrow> Undefined)"

definition postUpdateMany_spec ::
  "plugin_env \<Rightarrow> model \<Rightarrow> jsval \<Rightarrow> query \<Rightarrow> patch list \<Rightarrow> patch list" where
  "postUpdateMany_spec env m result this patches =
     (if nothing_modified result then patches
      else let docs = map (init env) (find m (conditionsMany this))
           in fold (\<lambda>doc ps.
                      createPatch env (doc\<lparr>doc_original := own_baseline this (doc_id doc)\<rparr>)
                        (q_options this) ps)
                docs patches)"






section \<open>The two libraries, for the examples\<close>

text \<open>
  The examples below need a diff engine and a \<open>get\<close>. \<open>generate\<close> follows the function
  of that name in fast-json-patch, which \<open>jsonpatch.compare\<close> calls with the empty path:
  the old keys are visited last key first, giving a \<open>remove\<close>, a \<open>replace\<close> or the
  operations of a nested object or array; the \<open>add\<close> operations follow, unless no key was
  removed and the number of keys is the same. A slash or a tilde in a key is escaped.
\<close>

definition escapePathComponent :: "string \<Rightarrow> string" where
  "escapePathComponent k =
     concat (map (\<lambda>c. if c = CHR ''~'' then ''~0'' else if c = CHR ''/'' then ''~1'' else [c]) k)"

definition is_container :: "jsval \<Rightarrow> bool" where
  "is_container v = (case v of Arr xs \<Rightarrow> True | Obj kvs \<Rightarrow> True | _ \<Rightarrow> False)"

definition is_array :: "jsval \<Rightarrow> bool" where
  "is_array v = (case v of Arr xs \<Rightarrow> True | _ \<Rightarrow> False)"

function generate :: "string \<Rightarrow> jsval \<Rightarrow> jsval \<Rightarrow> entry list" where
  "generate pth mirror obj =
     (let oldProps = own_props mirror;
          newProps = own_props obj;
          kept = (\<lambda>key oldVal.
                    case map_of newProps key of
                      None \<Rightarrow> None
                    | Some newVal \<Rightarrow>
                        if newVal = Undefined \<and> oldVal \<noteq> Undefined \<and> \<not> is_array obj then None
                        else Some newVal);
          changes =
            concat (map (\<lambda>(key, oldVal).
                      case kept key oldVal of
                        Some newVal \<Rightarrow>
                          if is_container oldVal \<and> is_container newVal
                             \<and> is_array oldVal = is_array newVal
                          then generate (pth @ ''/'' @ escapePathComponent key) oldVal newVal
                          else if oldVal \<noteq> newVal
                          then [\<lparr>op = ''replace'', path = pth @ ''/'' @ escapePathComponent key,
                                 val = newVal, originalValue = None\<rparr>]
                          else []
                      | None \<Rightarrow>
                          if is_array mirror = is_array obj
                          then [\<lparr>op = ''remove'', path = pth @ ''/'' @ escapePathComponent key,
                                 val = Undefined, originalValue = None\<rparr>]
                          else [\<lparr>op = ''replace'', path = pth, val = obj, originalValue = None\<rparr>])
                    (rev oldProps));
          deleted = (is_array mirror = is_array obj
                     \<and> list_ex (\<lambda>(key, oldVal). kept key oldVal = None) oldProps)
      in if \<not> deleted \<and> length newProps = length oldProps then changes
         else changes @
              concat (map (\<lambda>(key, newVal).
                        if map_of oldProps key = None \<and> newVal \<noteq> Undefined
                        then [\<lparr>op = ''add'', path = pth @ ''/'' @ escapePathComponent key,
                               val = newVal, originalValue = None\<rparr>]
                        else [])
                      newProps))"
  by pat_completeness auto
termination
proof -
  have smaller: "size v < size m" if "(k, v) \<in> set (own_props m)" and "is_container v"
    for k :: string and v m :: jsval
  proof (cases m)
    case (Arr xs)
    with that obtain i where "i < length xs" "v = xs ! i" by auto
    then have "v \<in> set xs" by simp
    then have "size v \<le> size_list size xs" by (simp add: size_list_estimation')
    with Arr show ?thesis by simp
  next
    case (Obj kvs)
    with that have "(k, v) \<in> set kvs" by simp
    then have "size_prod (\<lambda>_. 0) size (k, v) \<le> size_list (size_prod (\<lambda>_. 0) size) kvs"
      by (simp add: size_list_estimation')
    with Obj show ?thesis by simp
  qed (use that in \<open>auto simp: is_container_def\<close>)
  show ?thesis
    by (relation "measure (\<lambda>(pth, mirror, obj). size mirror)")
      (auto dest: smaller split: option.splits if_splits)
qed

declare generate.simps [simp del]

definition json_compare :: "jsval \<Rightarrow> jsval \<Rightarrow> entry list" where
  "json_compare a b = generate [] a b"

text \<open>
  \<open>lodash_get\<close> follows lodash's \<open>get\<close> for a string path: \<open>isKey\<close> decides whether the
  string is one key (it is a plain word, or it has no dot and no bracket expression, or
  it is a property of the object); otherwise \<open>stringToPath\<close> cuts it at dots and reads
  bracket expressions, as the regular expression \<open>rePropName\<close> matches them from left to
  right; \<open>baseGet\<close> then follows the keys. Only own properties of the data are read:
  what a value inherits (\<open>length\<close>, \<open>constructor\<close>) is not modelled.
\<close>

definition digit_char :: "char \<Rightarrow> bool" where
  "digit_char c = (48 \<le> (of_char c :: nat) \<and> (of_char c :: nat) \<le> 57)"

definition word_char :: "char \<Rightarrow> bool" where
  "word_char c =
     (digit_char c \<or> (97 \<le> (of_char c :: nat) \<and> (of_char c :: nat) \<le> 122)
      \<or> (65 \<le> (of_char c :: nat) \<and> (of_char c :: nat) \<le> 90) \<or> c = CHR ''_'')"

definition path_char :: "char \<Rightarrow> bool" where
  "path_char c = (c \<noteq> CHR ''.'' \<and> c \<noteq> CHR ''['' \<and> c \<noteq> CHR '']'')"

text \<open>
  A quoted key inside brackets: after the opening quote, the characters up to the closing
  quote, a backslash taking the next character with it; the result is the raw text and
  the number of characters read, closing quote included.
\<close>

fun quoted_body :: "char \<Rightarrow> string \<Rightarrow> (string \<times> nat) option" where
  "quoted_body q [] = None"
| "quoted_body q (x # xs) =
     (if x = q then Some ([], 1)
      else if x = CHR 0x5C
      then (case xs of
              [] \<Rightarrow> None
            | y # ys \<Rightarrow>
                if y = CHR 0x0A \<or> y = CHR 0x0D then None
                else (case quoted_body q ys of
                        None \<Rightarrow> None
                      | Some (body, n) \<Rightarrow> Some (x # y # body, n + 2)))
      else (case quoted_body q xs of
              None \<Rightarrow> None
            | Some (body, n) \<Rightarrow> Some (x # body, n + 1)))"

fun strip_escapes :: "string \<Rightarrow> string" where
  "strip_escapes [] = []"
| "strip_escapes (x # xs) =
     (if x = CHR 0x5C
      then (case xs of
              [] \<Rightarrow> []
            | y # ys \<Rightarrow> y # strip_escapes ys)
      else x # strip_escapes xs)"

text \<open>
  After an opening bracket: a number and the closing bracket, or a quoted key and the
  closing bracket; the result is the key and the number of characters read.
\<close>

definition number_token :: "string \<Rightarrow> (string \<times> nat) option" where
  "number_token cs =
     (let sign = (case cs of c # r \<Rightarrow> if c = CHR ''-'' then [c] else [] | [] \<Rightarrow> []);
          r0 = drop (length sign) cs;
          ds = takeWhile digit_char r0
      in if ds = [] then None
         else case dropWhile digit_char r0 of
                [] \<Rightarrow> None
              | c # r2 \<Rightarrow>
                  if c = CHR '']'' then Some (sign @ ds, length sign + length ds + 1)
                  else if c = CHR ''.''
                  then (let fs = takeWhile digit_char r2
                        in case dropWhile digit_char r2 of
                             [] \<Rightarrow> None
                           | c2 # r3 \<Rightarrow>
                               if fs \<noteq> [] \<and> c2 = CHR '']''
                               then Some (sign @ ds @ [c] @ fs,
                                          length sign + length ds + length fs + 2)
                               else None)
                  else None)"

definition quoted_token :: "string \<Rightarrow> (string \<times> nat) option" where
  "quoted_token cs =
     (case cs of
        [] \<Rightarrow> None
      | q # rest \<Rightarrow>
          if q = CHR 0x22 \<or> q = CHR 0x27
          then (case quoted_body q rest of
                  None \<Rightarrow> None
                | Some (body, n) \<Rightarrow>
                    (case drop n rest of
                       [] \<Rightarrow> None
                     | c # r \<Rightarrow> if c = CHR '']'' then Some (strip_escapes body, n + 2) else None))
          else None)"

definition bracket_token :: "string \<Rightarrow> (string \<times> nat) option" where
  "bracket_token cs = (case number_token cs of Some r \<Rightarrow> Some r | None \<Rightarrow> quoted_token cs)"

text \<open>
  The empty match of \<open>rePropName\<close>: at a dot or at \<open>[]\<close> that is followed by a dot, by
  \<open>[]\<close> or by the end of the string.
\<close>

definition after_separator :: "string \<Rightarrow> string option" where
  "after_separator xs =
     (case xs of
        [] \<Rightarrow> None
      | c # r \<Rightarrow>
          if c = CHR ''.'' then Some r
          else if c = CHR ''['' then (case r of c2 # r2 \<Rightarrow> if c2 = CHR '']'' then Some r2 else None
                                        | [] \<Rightarrow> None)
          else None)"

definition empty_match :: "string \<Rightarrow> bool" where
  "empty_match xs =
     (case after_separator xs of
        None \<Rightarrow> False
      | Some r \<Rightarrow> r = [] \<or> after_separator r \<noteq> None)"

function scan :: "string \<Rightarrow> string list" where
  "scan [] = []"
| "scan (c # cs) =
     (if path_char c then (c # takeWhile path_char cs) # scan (dropWhile path_char cs)
      else if c = CHR ''[''
      then (case bracket_token cs of
              Some (tok, n) \<Rightarrow> tok # scan (drop n cs)
            | None \<Rightarrow> (if empty_match (c # cs) then [[]] else []) @ scan cs)
      else (if empty_match (c # cs) then [[]] else []) @ scan cs)"
  by pat_completeness auto
termination
  by (relation "measure length") (auto simp: less_Suc_eq_le length_dropWhile_le)

definition stringToPath :: "string \<Rightarrow> string list" where
  "stringToPath s = (case s of c # r \<Rightarrow> if c = CHR ''.'' then [[]] else [] | [] \<Rightarrow> []) @ scan s"

text \<open>\<open>reIsDeepProp\<close>: a dot, or a bracket expression, somewhere in the string.\<close>

definition simple_bracket :: "string \<Rightarrow> bool" where
  "simple_bracket cs =
     (case dropWhile (\<lambda>x. x \<noteq> CHR ''['' \<and> x \<noteq> CHR '']'') cs of
        [] \<Rightarrow> False
      | c # r \<Rightarrow> c = CHR '']'')"

fun reIsDeepProp :: "string \<Rightarrow> bool" where
  "reIsDeepProp [] = False"
| "reIsDeepProp (c # cs) =
     (c = CHR ''.''
      \<or> (c = CHR ''['' \<and> (simple_bracket cs \<or> quoted_token cs \<noteq> None))
      \<or> reIsDeepProp cs)"

definition reIsPlainProp :: "string \<Rightarrow> bool" where
  "reIsPlainProp s = list_all word_char s"

definition isKey :: "string \<Rightarrow> jsval \<Rightarrow> bool" where
  "isKey p object =
     (reIsPlainProp p \<or> \<not> reIsDeepProp p
      \<or> (object \<noteq> Undefined \<and> object \<noteq> Null \<and> p \<in> fst ` set (own_props object)))"

definition read_prop :: "jsval \<Rightarrow> string \<Rightarrow> jsval" where
  "read_prop object k = (case map_of (own_props object) k of Some v \<Rightarrow> v | None \<Rightarrow> Undefined)"

fun baseGet :: "jsval \<Rightarrow> string list \<Rightarrow> jsval" where
  "baseGet object [] = object"
| "baseGet object (k # ks) =
     (if object = Undefined \<or> object = Null then Undefined
      else baseGet (read_prop object k) ks)"

definition lodash_get :: "jsval \<Rightarrow> string \<Rightarrow> jsval" where
  "lodash_get object p =
     (if object = Undefined \<or> object = Null then Undefined
      else let pth = (if isKey p object then [p] else stringToPath p)
           in if pth = [] then Undefined else baseGet object pth)"

definition example_options :: options where
  "example_options =
     \<lparr> mongoose = True, name = Some ''postPatches'', schema_factory = True, included = [],
       excludes = [], removePatches = True, trackOriginalValue = False,
       idType = Some ''ObjectId'' \<rparr>"

definition example_env :: plugin_env where
  "example_env =
     \<lparr> env_options = example_options, env_timestamps = NoTimestamps,
       compare = json_compare, get = lodash_get \<rparr>"

definition example_query :: query where
  "example_query =
     \<lparr> q_conditions = Obj [(''name'', Str ''a'')],
       q_update = Obj [(''$set'', Obj [(''title'', Str ''b'')])],
       q_options = Obj [],
       q_originalId = Undefined, q_original = Undefined,
       q_originalIds = [], q_originals = [] \<rparr>"

text \<open>
  A store holding one post titled \<open>b\<close>, and a query that asks to retitle the posts titled
  \<open>old\<close>, of which there is none.
\<close>

definition example_stored :: stored where
  "example_stored = \<lparr> s_id = Num 1, s_fields = [(''title'', Str ''b'')], s_virtuals = [] \<rparr>"

definition example_blank :: document where
  "example_blank =
     \<lparr> doc_id = Num 7, isNew = True, doc_original = Undefined, doc_fields = [],
       doc_virtuals = [] \<rparr>"

definition example_model :: model where
  "example_model =
     \<lparr> findOne = (\<lambda>c. if c = Obj [(''title'', Str ''b'')] then Some example_stored else None),
       find = (\<lambda>c. if c = Obj [(''title'', Str ''b'')] then [example_stored] else []),
       new_blank = example_blank \<rparr>"

definition retitle_query :: query where
  "retitle_query =
     \<lparr> q_conditions = Obj [(''title'', Str ''old'')],
       q_update = Obj [(''$set'', Obj [(''title'', Str ''b'')])],
       q_options = Obj [],
       q_originalId = Undefined, q_original = Undefined,
       q_originalIds = [], q_originals = [] \<rparr>"

text \<open>The schema and the options of the usage example in the README.\<close>

definition example_schema :: schema where
  "example_schema =
     \<lparr> tree_id = Some (Some ''ObjectId''), methods = [], statics = [], virtual_names = [],
       hooks = [], timestamps = NoTimestamps \<rparr>"

definition example_opts :: plugin_opts where
  "example_opts =
     \<lparr> opt_mongoose = True, opt_name = Some ''postPatches'', opt_schema = True,
       opt_includes = None, opt_removePatches = None, opt_trackOriginalValue = None \<rparr>"

text \<open>
  A loaded post whose title was edited from \<open>A\<close> to \<open>B\<close>, the same with a counter at zero
  and an ad hoc property \<open>_user\<close>, and environments with original-value tracking, with
  two included fields, and with cascade deletion switched off.
\<close>

definition tracking_env :: plugin_env where
  "tracking_env = example_env\<lparr>env_options := example_options\<lparr>trackOriginalValue := True\<rparr>\<rparr>"

definition edited_post :: document where
  "edited_post =
     \<lparr> doc_id = Num 1, isNew = False, doc_original = Obj [(''title'', Str ''A'')],
       doc_fields = [(''title'', Str ''B'')], doc_virtuals = [] \<rparr>"

definition includes_env :: plugin_env where
  "includes_env =
     example_env\<lparr>env_options := example_options\<lparr>included :=
       [(''user'', \<lparr>from_field = Some ''_user''\<rparr>), (''count'', \<lparr>from_field = None\<rparr>)]\<rparr>\<rparr>"

definition counted_post :: document where
  "counted_post =
     \<lparr> doc_id = Num 1, isNew = False, doc_original = Obj [(''title'', Str ''A'')],
       doc_fields = [(''title'', Str ''B''), (''count'', Num 0)],
       doc_virtuals = [(''_user'', Str ''u1'')] \<rparr>"

definition example_query_options :: jsval where
  "example_query_options = Obj [(''_user'', Str ''u2''), (''count'', Num 5)]"

definition keeping_env :: plugin_env where
  "keeping_env = example_env\<lparr>env_options := example_options\<lparr>removePatches := False\<rparr>\<rparr>"

definition example_patches :: "patch list" where
  "example_patches =
     [[(''ops'', Ops [\<lparr>op = ''add'', path = ''/title'', val = Str ''A'', originalValue = None\<rparr>]),
       (''ref'', Val (Num 1))],
      [(''ops'', Ops [\<lparr>op = ''add'', path = ''/title'', val = Str ''x'', originalValue = None\<rparr>]),
       (''ref'', Val (Num 2))],
      [(''ops'', Ops [\<lparr>op = ''replace'', path = ''/title'', val = Str ''b'', originalValue = None\<rparr>]),
       (''ref'', Val (Num 1))]]"

text \<open>
  A query whose conditions the stored post matches, and a model whose blank instance
  carries a default, as the \<open>comments: Array\<close> field of the README's schema does.
\<close>

definition matching_query :: query where
  "matching_query = retitle_query\<lparr>q_conditions := Obj [(''title'', Str ''b'')]\<rparr>"

definition defaults_model :: model where
  "defaults_model =
     example_model\<lparr>new_blank := example_blank\<lparr>doc_fields := [(''comments'', Arr [])]\<rparr>\<rparr>"

text \<open>
  A bulk update: two posts of group \<open>g\<close>, stored in the order \<open>post_a\<close>, \<open>post_b\<close>; the
  update sets the title \<open>new\<close>, which \<open>post_b\<close> already has, so it modifies \<open>post_a\<close>
  only. After the write the store answers the identity filter either in the order of
  the pre-phase (\<open>store_after\<close>) or in ascending order of \<open>_id\<close> (\<open>store_after_by_id\<close>).
\<close>

definition post_a :: stored where
  "post_a = \<lparr> s_id = Num 2, s_fields = [(''title'', Str ''old''), (''group'', Str ''g'')],
              s_virtuals = [] \<rparr>"

definition post_b :: stored where
  "post_b = \<lparr> s_id = Num 1,
              s_fields = [(''title'', Str ''new''), (''group'', Str ''g''), (''pinned'', Bool True)],
              s_virtuals = [] \<rparr>"

definition post_a_updated :: stored where
  "post_a_updated = post_a\<lparr>s_fields := [(''title'', Str ''new''), (''group'', Str ''g'')]\<rparr>"

definition group_query :: query where
  "group_query =
     \<lparr> q_conditions = Obj [(''group'', Str ''g'')],
       q_update = Obj [(''$set'', Obj [(''title'', Str ''new'')])],
       q_options = Obj [],
       q_originalId = Undefined, q_original = Undefined,
       q_originalIds = [], q_originals = [] \<rparr>"

definition store_before :: model where
  "store_before =
     \<lparr> findOne = (\<lambda>c. if c = Obj [(''group'', Str ''g'')] then Some post_a else None),
       find = (\<lambda>c. if c = Obj [(''group'', Str ''g'')] then [post_a, post_b] else []),
       new_blank = example_blank \<rparr>"

definition store_after :: model where
  "store_after =
     \<lparr> findOne = (\<lambda>c. None),
       find = (\<lambda>c. if c = Obj [(''_id'', Obj [(''$in'', Arr [Num 2, Num 1])])]
                    then [post_a_updated, post_b] else []),
       new_blank = example_blank \<rparr>"

definition store_after_by_id :: model where
  "store_after_by_id =
     \<lparr> findOne = (\<lambda>c. None),
       find = (\<lambda>c. if c = Obj [(''_id'', Obj [(''$in'', Arr [Num 2, Num 1])])]
                    then [post_b, post_a_updated] else []),
       new_blank = example_blank \<rparr>"

text \<open>
  The result of an update that modified nothing, as mongoose 6 reports it; a post with a
  nested object and an array, edited in both; and a post whose keys hold a slash, a
  tilde, a dot and brackets, with a top-level key that reads like a path.
\<close>

definition mongoose6_result :: jsval where
  "mongoose6_result =
     Obj [(''acknowledged'', Bool True), (''modifiedCount'', Num 0), (''upsertedId'', Null),
          (''upsertedCount'', Num 0), (''matchedCount'', Num 0)]"

definition nested_post :: document where
  "nested_post =
     \<lparr> doc_id = Num 1, isNew = False,
       doc_original = Obj [(''meta'', Obj [(''title'', Str ''A'')]),
                           (''tags'', Arr [Str ''x'', Str ''y''])],
       doc_fields = [(''meta'', Obj [(''title'', Str ''B'')]),
                     (''tags'', Arr [Str ''x'', Str ''z''])],
       doc_virtuals = [] \<rparr>"

definition odd_keys_post :: document where
  "odd_keys_post =
     \<lparr> doc_id = Num 1, isNew = False,
       doc_original = Obj [(''a/b'', Num 1), (''c~d'', Num 1),
                           (''x'', Obj [(''e.f'', Num 1), (''g[0]'', Num 1)]),
                           (''h'', Obj [(''i'', Num 1)]), (''h.i'', Num 2)],
       doc_fields = [(''a/b'', Num 5), (''c~d'', Num 5),
                     (''x'', Obj [(''e.f'', Num 5), (''g[0]'', Num 5)]),
                     (''h'', Obj [(''i'', Num 5)]), (''h.i'', Num 2)],
       doc_virtuals = [] \<rparr>"

section \<open>Facts shared by the proofs\<close>

lemmas example_defs =
  example_env_def example_options_def example_query_def example_model_def
  example_stored_def example_blank_def retitle_query_def example_schema_def example_opts_def
  tracking_env_def edited_post_def includes_env_def counted_post_def example_query_options_def
  keeping_env_def example_patches_def matching_query_def defaults_model_def
  post_a_def post_b_def post_a_updated_def group_query_def store_before_def store_after_def
  store_after_by_id_def mongoose6_result_def nested_post_def odd_keys_post_def

lemmas generate_Obj = generate.simps [where mirror = "Obj kvs" for kvs]

lemmas generate_Arr = generate.simps [where mirror = "Arr xs" for xs]

lemmas eval_defs =
  createPatch_def data_def compare_base_def lookup_base_def json_compare_def generate_Obj
  generate_Arr escapePathComponent_def is_container_def is_array_def
  patches_create_def assemble_def track_def include_value_def include_key_def doc_prop_def
  js_or_def dotted_path_def tail_def snapshot_def init_def snapshot_hook_def Let_def



lemma merge_independent_of_conditions:
  "mergeQueryConditionsWithUpdate c u = mergeQueryConditionsWithUpdate c' u"
  by (simp add: mergeQueryConditionsWithUpdate_def)

lemma map_of_fold_update_other:
  "k \<notin> fst ` set incs \<Longrightarrow>
   map_of (fold (\<lambda>(nm, ty) acc. AList.update nm (f nm ty) acc) incs al) k = map_of al k"
  by (induction incs arbitrary: al) (auto simp: update_conv')


lemma assemble_ref:
  "''ref'' \<notin> fst ` set (included (env_options env)) \<Longrightarrow>
   map_of (assemble env d qo ops) ''ref'' = Some (Val (doc_id d))"
  by (simp add: assemble_def map_of_fold_update_other)


lemma createPatch_cases:
  "createPatch env d qo ps =
     (if compare env (compare_base d) (snapshot (env_timestamps env) d) = [] then ps
      else ps @ [assemble env d (if qo = Undefined then Obj [] else qo)
                   (track env d (compare env (compare_base d) (snapshot (env_timestamps env) d)))])"
  by (simp add: createPatch_def snapshot_def patches_create_def Let_def)

text \<open>The path conversion, on a pointer whose segments hold no slash.\<close>

lemma js_split_until_separator:
  "c \<notin> set k \<Longrightarrow> js_split c (k @ c # rest) = k # js_split c rest"
  by (induction k) auto

lemma js_split_no_separator: "c \<notin> set k \<Longrightarrow> js_split c k = [k]"
  by (induction k) auto

lemma js_split_segments:
  "c \<notin> set k \<Longrightarrow> \<forall>k' \<in> set ks. c \<notin> set k' \<Longrightarrow>
   js_split c (k @ concat (map (\<lambda>k'. c # k') ks)) = k # ks"
proof (induction ks arbitrary: k)
  case Nil
  then show ?case by (simp add: js_split_no_separator)
next
  case (Cons k2 ks)
  then have "js_split c (k2 @ concat (map (\<lambda>k'. c # k') ks)) = k2 # ks" by simp
  with Cons.prems show ?case by (simp add: js_split_until_separator)
qed

lemma dotted_path_segments:
  assumes "\<forall>k \<in> set ks. CHR ''/'' \<notin> set k"
  shows "dotted_path (concat (map (\<lambda>k. CHR ''/'' # k) ks)) = js_join ''.'' ks"
  using js_split_segments [of "CHR ''/''" "[]" ks] assms
  by (simp add: dotted_path_def tail_def)

lemma dotted_path_example: "dotted_path ''/comments/0/message'' = ''comments.0.message''"
  by (simp add: dotted_path_def tail_def)

text \<open>Removing every patch found leaves the patches that were not found, in order.\<close>

lemma fold_remove_found:
  "\<forall>q \<in> set qs. \<not> P q \<Longrightarrow>
   fold patch_remove (filter P ps) (qs @ ps) = qs @ filter (\<lambda>p. \<not> P p) ps"
proof (induction ps arbitrary: qs)
  case Nil
  then show ?case by simp
next
  case (Cons x ps)
  show ?case
  proof (cases "P x")
    case True
    with Cons.prems have "x \<notin> set qs" by auto
    then have "patch_remove x (qs @ x # ps) = qs @ ps"
      by (simp add: patch_remove_def remove1_append)
    with True Cons.IH [OF Cons.prems] show ?thesis by simp
  next
    case False
    with Cons.prems have "\<forall>q \<in> set (qs @ [x]). \<not> P q" by simp
    from Cons.IH [OF this] False show ?thesis by simp
  qed
qed

lemma deletePatches_Some:
  "deletePatches (Some d) patches
   = Inr (filter (\<lambda>p. map_of p ''ref'' \<noteq> Some (Val (doc_id d))) patches)"
  using fold_remove_found [of "[]" "\<lambda>p. map_of p ''ref'' = Some (Val (doc_id d))" patches]
  by (simp add: deletePatches_def patches_find_ref_def)

lemma find_ref_after_delete:
  "patches_find_ref r (filter (\<lambda>p. map_of p ''ref'' \<noteq> Some (Val i)) patches)
   = (if r = i then [] else patches_find_ref r patches)"
  by (induction patches) (auto simp: patches_find_ref_def)

















section \<open>The claims\<close>

subsection \<open>The fallback filter\<close>

text \<open>
  C1. When the pre-phase recorded no identity, the post-phase re-queries by
  \<open>mergeQueryConditionsWithUpdate(this._conditions, this._update)\<close>. For the conditions
  \<open>{name: 'a'}\<close> and the update \<open>{$set: {title: 'b'}}\<close> the filter is \<open>{title: 'b'}\<close>, in
  \<open>postUpdateOne\<close> and in \<open>postUpdateMany\<close> alike: the query conditions are not part of
  it, where the specification's merge gives \<open>{name: 'a', title: 'b'}\<close>.
\<close>

theorem merge_drops_query_conditions:
  "mergeQueryConditionsWithUpdate (Obj [(''name'', Str ''a'')])
       (Obj [(''$set'', Obj [(''title'', Str ''b'')])]) = Obj [(''title'', Str ''b'')]
   \<and> conditionsOne example_query = Obj [(''title'', Str ''b'')]
   \<and> conditionsMany example_query = Obj [(''title'', Str ''b'')]
   \<and> merged_filter_spec (q_conditions example_query) (q_update example_query)
     = Obj [(''name'', Str ''a''), (''title'', Str ''b'')]"
  by (simp add: mergeQueryConditionsWithUpdate_def merged_filter_spec_def assign_def js_or_def
        conditionsOne_def conditionsMany_def example_query_def)

subsection \<open>Bulk updates\<close>

text \<open>
  Where the re-query returns the identities the pre-phase recorded, in the order it
  recorded them, \<open>postUpdateMany\<close> diffs every document against its own snapshot.
\<close>

lemma fold_ignoring_index:
  "length js = length docs \<Longrightarrow>
   fold (\<lambda>(doc, i) ps. f doc ps) (zip docs js) ps = fold f docs ps"
  by (induction docs js arbitrary: ps rule: list_induct2') simp_all

lemma postUpdateMany_spec_when_aligned:
  assumes ids: "map s_id (find m (conditionsMany this)) = q_originalIds this"
    and dist: "distinct (q_originalIds this)"
    and len: "length (q_originals this) = length (q_originalIds this)"
  shows "postUpdateMany env m result this patches = postUpdateMany_spec env m result this patches"
proof -
  define docs where "docs = map (init env) (find m (conditionsMany this))"
  have doc_ids: "map doc_id docs = q_originalIds this"
    using ids by (simp add: docs_def init_def snapshot_hook_def comp_def)
  have same: "at_index (q_originals this) i = own_baseline this (doc_id doc)"
    if "(doc, i) \<in> set (zip docs [0..<length docs])" for doc i
  proof -
    from that have i: "i < length docs" and doc: "doc = docs ! i"
      by (auto simp: in_set_zip)
    from doc_ids have n: "length docs = length (q_originalIds this)"
      by (metis length_map)
    from doc_ids i doc have "doc_id doc = q_originalIds this ! i"
      by (metis nth_map)
    moreover have "map_of (zip (q_originalIds this) (q_originals this)) (q_originalIds this ! i)
                   = Some (q_originals this ! i)"
      using dist len i n by (simp add: map_of_zip_nth)
    ultimately show ?thesis
      using i n len by (simp add: at_index_def own_baseline_def)
  qed
  have "fold (\<lambda>(doc, i) ps.
               createPatch env (doc\<lparr>doc_original := at_index (q_originals this) i\<rparr>)
                 (q_options this) ps)
          (zip docs [0..<length docs]) patches
        = fold (\<lambda>(doc, i) ps.
               createPatch env (doc\<lparr>doc_original := own_baseline this (doc_id doc)\<rparr>)
                 (q_options this) ps)
          (zip docs [0..<length docs]) patches"
    by (rule fold_cong) (auto simp: same)
  then show ?thesis
    by (simp add: postUpdateMany_def postUpdateMany_spec_def docs_def [symmetric]
          fold_ignoring_index Let_def)
qed

text \<open>
  C2. A bulk update over two posts stored in the order \<open>post_a\<close>, \<open>post_b\<close>, which
  modifies \<open>post_a\<close> only. The pre-phase finds them in that order; the post-phase
  re-queries by identity and the store answers in ascending order of \<open>_id\<close>, \<open>post_b\<close>
  first. \<open>postUpdateMany\<close> then records two patches: \<open>post_b\<close>, which did not change, is
  diffed against the snapshot of \<open>post_a\<close>, and \<open>post_a\<close> against the snapshot of
  \<open>post_b\<close>. Diffing each document against its own snapshot gives the one patch the
  claim asks for, with the identity of \<open>post_a\<close> as \<open>ref\<close>.
\<close>

theorem updateMany_pairs_by_position:
  "find store_before (q_conditions group_query) = [post_a, post_b]
   \<and> find store_after_by_id (conditionsMany (preUpdateMany example_env store_before group_query))
     = [post_b, post_a_updated]
   \<and> postUpdateMany example_env store_after_by_id (Obj [(''n'', Num 2), (''nModified'', Num 1)])
       (preUpdateMany example_env store_before group_query) []
     = [[(''ops'', Ops [\<lparr>op = ''replace'', path = ''/title'', val = Str ''new'', originalValue = None\<rparr>,
                        \<lparr>op = ''add'', path = ''/pinned'', val = Bool True, originalValue = None\<rparr>]),
         (''ref'', Val (Num 1))],
        [(''ops'', Ops [\<lparr>op = ''remove'', path = ''/pinned'', val = Undefined, originalValue = None\<rparr>]),
         (''ref'', Val (Num 2))]]
   \<and> postUpdateMany_spec example_env store_after_by_id (Obj [(''n'', Num 2), (''nModified'', Num 1)])
       (preUpdateMany example_env store_before group_query) []
     = [[(''ops'', Ops [\<lparr>op = ''replace'', path = ''/title'', val = Str ''new'', originalValue = None\<rparr>]),
         (''ref'', Val (Num 2))]]"
  by (simp add: example_defs postUpdateMany_def postUpdateMany_spec_def own_baseline_def
        preUpdateMany_def conditionsMany_def nothing_modified_def at_index_def eval_defs)

lemma updateMany_in_order_example:
  "postUpdateMany example_env store_after (Obj [(''n'', Num 2), (''nModified'', Num 1)])
       (preUpdateMany example_env store_before group_query) []
     = [[(''ops'', Ops [\<lparr>op = ''replace'', path = ''/title'', val = Str ''new'', originalValue = None\<rparr>]),
         (''ref'', Val (Num 2))]]"
  by (simp add: example_defs postUpdateMany_def preUpdateMany_def conditionsMany_def
        nothing_modified_def at_index_def eval_defs)

subsection \<open>Skipping the post-phase\<close>




subsection \<open>Patch assembly\<close>

text \<open>
  C4. \<open>createPatch\<close> adds a record to the patch repository if and only if the diff of the
  baseline against the document's current snapshot has an operation; with an empty diff
  the repository is left as it is.
\<close>

theorem patch_iff_nonempty_diff:
  "(\<exists>p. createPatch env d qo ps = ps @ [p])
     = (compare env (compare_base d) (snapshot (env_timestamps env) d) \<noteq> [])
   \<and> (createPatch env d qo ps = ps)
     = (compare env (compare_base d) (snapshot (env_timestamps env) d) = [])"
  by (simp add: createPatch_cases)

lemma pre_save_examples:
  "pre_save example_env
     \<lparr> doc_id = Num 3, isNew = True, doc_original = Undefined,
       doc_fields = [(''title'', Str ''A'')], doc_virtuals = [] \<rparr> []
   = [[(''ops'', Ops [\<lparr>op = ''add'', path = ''/title'', val = Str ''A'', originalValue = None\<rparr>]),
       (''ref'', Val (Num 3))]]"
  "pre_save example_env (snapshot_hook example_env edited_post) example_patches = example_patches"
  by (simp_all add: pre_save_def example_defs eval_defs)




subsection \<open>The baseline of a single-target update\<close>

text \<open>
  C6, as the code has it. The baseline \<open>preUpdateOne\<close> stores is the snapshot of the
  document \<open>findOne\<close> returns for the query's conditions, and the snapshot of a blank
  instance \<open>new this.model({})\<close> when there is none; that is the empty object when the
  blank instance has no fields.
\<close>

theorem preUpdateOne_baseline:
  "q_original (preUpdateOne env m this)
   = (case findOne m (q_conditions this) of
        Some s \<Rightarrow> snapshot (env_timestamps env) (init env s)
      | None \<Rightarrow> snapshot (env_timestamps env) (new_blank m))
   \<and> (doc_fields (new_blank m) = [] \<longrightarrow> snapshot (env_timestamps env) (new_blank m) = Obj [])"
  by (simp add: preUpdateOne_def snapshot_def data_def split: option.splits timestamps_opt.splits)

theorem preUpdateOne_baseline_witness:
  "findOne example_model (q_conditions matching_query) = Some example_stored
   \<and> q_original (preUpdateOne example_env example_model matching_query) = Obj [(''title'', Str ''b'')]
   \<and> findOne example_model (q_conditions retitle_query) = None
   \<and> doc_fields (new_blank example_model) = []
   \<and> q_original (preUpdateOne example_env example_model retitle_query) = Obj []"
  using preUpdateOne_baseline [of example_env example_model matching_query]
    preUpdateOne_baseline [of example_env example_model retitle_query]
  by (simp add: example_defs snapshot_def init_def snapshot_hook_def data_def)

text \<open>
  C6 as stated fails when the model's blank instance carries defaults: no document
  matches, and the baseline is \<open>{comments: []}\<close>, not the empty object.
\<close>

theorem blank_baseline_not_empty_example:
  "findOne defaults_model (q_conditions retitle_query) = None
   \<and> q_original (preUpdateOne example_env defaults_model retitle_query)
     = Obj [(''comments'', Arr [])]"
  by (simp add: example_defs preUpdateOne_def data_def)

subsection \<open>Original values\<close>




subsection \<open>Cascade deletion\<close>

text \<open>
  C8. With \<open>removePatches\<close> on, after the \<open>remove\<close> hook of a document, and after the
  \<open>findOneAndRemove\<close> hook that resolved a document, no patch whose \<open>ref\<close> is that
  document's identity is left and the patches of every other \<open>ref\<close> are as before. With
  \<open>removePatches\<close> off both hooks leave the patch repository as it is.
\<close>

theorem cascade_delete:
  "(removePatches (env_options env) \<longrightarrow>
      (\<exists>ps. pre_remove env d patches = Inr ps
            \<and> patches_find_ref (doc_id d) ps = []
            \<and> (\<forall>r. r \<noteq> doc_id d \<longrightarrow> patches_find_ref r ps = patches_find_ref r patches)))
   \<and> (removePatches (env_options env) \<and> findOne m (q_conditions this) = Some s \<longrightarrow>
      (\<exists>ps. pre_findOneAndRemove env m this patches = Inr ps
            \<and> patches_find_ref (s_id s) ps = []
            \<and> (\<forall>r. r \<noteq> s_id s \<longrightarrow> patches_find_ref r ps = patches_find_ref r patches)))
   \<and> (\<not> removePatches (env_options env) \<longrightarrow>
      pre_remove env d patches = Inr patches
      \<and> pre_findOneAndRemove env m this patches = Inr patches)"
  by (simp add: pre_remove_def pre_findOneAndRemove_def deletePatches_Some find_ref_after_delete
        init_def snapshot_hook_def)

theorem cascade_delete_witness:
  "removePatches (env_options example_env)
   \<and> (\<exists>ps. pre_remove example_env edited_post example_patches = Inr ps
          \<and> patches_find_ref (Num 1) ps = []
          \<and> patches_find_ref (Num 2) ps = patches_find_ref (Num 2) example_patches)
   \<and> findOne example_model (q_conditions matching_query) = Some example_stored
   \<and> (\<exists>ps. pre_findOneAndRemove example_env example_model matching_query example_patches = Inr ps
          \<and> patches_find_ref (Num 1) ps = [])
   \<and> \<not> removePatches (env_options keeping_env)
   \<and> pre_remove keeping_env edited_post example_patches = Inr example_patches
   \<and> pre_findOneAndRemove keeping_env example_model matching_query example_patches
       = Inr example_patches"
proof -
  have enabled: "removePatches (env_options example_env)"
    by (simp add: example_defs)
  have disabled: "\<not> removePatches (env_options keeping_env)"
    by (simp add: example_defs)
  have found: "findOne example_model (q_conditions matching_query) = Some example_stored"
    by (simp add: example_defs)
  have ids: "doc_id edited_post = Num 1" "s_id example_stored = Num 1"
    by (simp_all add: example_defs)
  note on = cascade_delete [of example_env edited_post example_patches example_model
      matching_query example_stored]
  note off = cascade_delete [of keeping_env edited_post example_patches example_model
      matching_query example_stored]
  from on enabled ids obtain ps where
    "pre_remove example_env edited_post example_patches = Inr ps"
    "patches_find_ref (Num 1) ps = []"
    "\<forall>r. r \<noteq> Num 1 \<longrightarrow> patches_find_ref r ps = patches_find_ref r example_patches"
    by auto
  moreover from on enabled found ids obtain ps' where
    "pre_findOneAndRemove example_env example_model matching_query example_patches = Inr ps'"
    "patches_find_ref (Num 1) ps' = []"
    by auto
  ultimately show ?thesis
    using enabled disabled found off by auto
qed

lemma cascade_delete_example:
  "pre_remove example_env edited_post example_patches
   = Inr [[(''ops'', Ops [\<lparr>op = ''add'', path = ''/title'', val = Str ''x'', originalValue = None\<rparr>]),
           (''ref'', Val (Num 2))]]"
  by (simp add: example_defs pre_remove_def deletePatches_def patches_find_ref_def
        patch_remove_def)

subsection \<open>Setup errors\<close>

text \<open>
  C9. When the \<open>mongoose\<close> option or the \<open>name\<close> option is missing, when the schema
  already has an instance method \<open>data\<close>, or when the schema has no \<open>_id\<close> type, the
  plugin function throws, and the schema and the registered models are as they were: no
  method, static, virtual or hook has been added and no model created.
\<close>

theorem plugin_setup_errors:
  assumes "\<not> opt_mongoose opts \<or> \<not> defined_string (opt_name opts)
           \<or> ''data'' \<in> set (methods schema)
           \<or> tree_id schema = None \<or> (\<exists>t. tree_id schema = Some t \<and> \<not> defined_string t)"
  shows "\<exists>e. plugin schema models opts = (Some e, schema, models)"
  using assms
  by (auto simp: plugin_def merge_options_def Let_def split: option.splits)

theorem plugin_setup_errors_witness:
  "\<not> opt_mongoose (example_opts\<lparr>opt_mongoose := False\<rparr>)
   \<and> (\<exists>e. plugin example_schema [] (example_opts\<lparr>opt_mongoose := False\<rparr>)
            = (Some e, example_schema, []))
   \<and> \<not> defined_string (opt_name (example_opts\<lparr>opt_name := None\<rparr>))
   \<and> (\<exists>e. plugin example_schema [] (example_opts\<lparr>opt_name := None\<rparr>)
            = (Some e, example_schema, []))
   \<and> ''data'' \<in> set (methods (example_schema\<lparr>methods := [''data'']\<rparr>))
   \<and> (\<exists>e. plugin (example_schema\<lparr>methods := [''data'']\<rparr>) [] example_opts
            = (Some e, example_schema\<lparr>methods := [''data'']\<rparr>, []))
   \<and> tree_id (example_schema\<lparr>tree_id := Some None\<rparr>) = Some None
   \<and> \<not> defined_string None
   \<and> (\<exists>e. plugin (example_schema\<lparr>tree_id := Some None\<rparr>) [] example_opts
            = (Some e, example_schema\<lparr>tree_id := Some None\<rparr>, []))"
  using plugin_setup_errors [of "example_opts\<lparr>opt_mongoose := False\<rparr>" example_schema "[]"]
    plugin_setup_errors [of "example_opts\<lparr>opt_name := None\<rparr>" example_schema "[]"]
    plugin_setup_errors [of example_opts "example_schema\<lparr>methods := [''data'']\<rparr>" "[]"]
    plugin_setup_errors [of example_opts "example_schema\<lparr>tree_id := Some None\<rparr>" "[]"]
  by (simp add: defined_string_def)

lemma plugin_attaches_example:
  "plugin example_schema [] example_opts
   = (None,
      example_schema\<lparr>methods := [''data''], statics := [''Patches''],
                     virtual_names := [''patches''], hooks := plugin_hooks\<rparr>,
      [''postPatches''])"
  by (simp add: plugin_def merge_options_def createPatchModel_def defined_string_def
        example_schema_def example_opts_def)

subsection \<open>Removing by query when nothing matches\<close>

text \<open>
  C10. With \<open>removePatches\<close> enabled, when no document matches the conditions of a
  \<open>findOneAndRemove\<close>, \<open>deletePatches\<close> is called on \<open>null\<close> and the hook fails with the
  \<open>TypeError\<close> this throws.
\<close>

theorem findOneAndRemove_no_match_fails:
  assumes "removePatches (env_options env)" and "findOne m (q_conditions this) = None"
  shows "pre_findOneAndRemove env m this patches = Inl TypeError"
  using assms by (simp add: pre_findOneAndRemove_def deletePatches_def)

theorem findOneAndRemove_no_match_fails_witness:
  "removePatches (env_options example_env)
   \<and> findOne example_model (q_conditions retitle_query) = None
   \<and> pre_findOneAndRemove example_env example_model retitle_query [] = Inl TypeError"
  using findOneAndRemove_no_match_fails [of example_env example_model retitle_query "[]"]
  by (simp add: example_defs)

end
